theory Spec2Isabelle
  imports Complex_Main
begin

section \<open>Background tasks of the geolocation service: data model\<close>

text \<open>
  The module \<^verbatim>\<open>ichnaea/tasks.py\<close> holds the periodic jobs that fold raw
  measurements into station rows and archive the measurements. The definitions below
  follow its functions one by one. Database rows are records, tables are lists of rows
  in storage order, a Python exception is a value of \<open>error\<close>, and a function that
  mutates rows returns the rows as they are afterwards.
\<close>

datatype error = ZeroDivisionError | TypeError | ValueError | UnboundLocalError

text \<open>
  The names imported from \<^verbatim>\<open>ichnaea.models\<close> and \<^verbatim>\<open>ichnaea.geocalc\<close>
  whose bodies are not in \<^verbatim>\<open>tasks.py\<close>: the sentinel cell id of a virtual LAC
  row, the conversions between stored integers and degrees, and the geodesic helpers.
  They are parameters of every function that calls them; floating-point values are
  taken as reals.
\<close>

record deps =
  CELLID_LAC :: int
  to_degrees :: "int \<Rightarrow> real"
  from_degrees :: "real \<Rightarrow> int"
  distance :: "real \<Rightarrow> real \<Rightarrow> real \<Rightarrow> real \<Rightarrow> real"
  centroid :: "(real \<times> real) list \<Rightarrow> real \<times> real"
  range_to_points :: "real \<times> real \<Rightarrow> (real \<times> real) list \<Rightarrow> real"

text \<open>
  A station row (\<^verbatim>\<open>Cell\<close> or \<^verbatim>\<open>Wifi\<close>): the columns that
  \<^verbatim>\<open>calculate_new_position\<close> and the trimmer read and write. Nullable columns
  are options. The column \<^verbatim>\<open>range\<close> is \<open>range'\<close> and \<^verbatim>\<open>id\<close> is
  \<open>id'\<close>, since HOL has constants of these names.
\<close>

record station =
  lat :: "int option"
  lon :: "int option"
  min_lat :: "int option"
  min_lon :: "int option"
  max_lat :: "int option"
  max_lon :: "int option"
  range' :: real
  new_measures :: int
  total_measures :: int

record cell = station +
  id' :: nat
  radio :: int
  mcc :: int
  mnc :: int
  lac :: int
  cid :: int
  created :: "int option"

record wifi = station +
  key :: string

definition WIFI_MAX_DIST_KM :: real where
  "WIFI_MAX_DIST_KM = 5"

definition CELL_MAX_DIST_KM :: real where
  "CELL_MAX_DIST_KM = 150"

section \<open>calculate\_new\_position\<close>

text \<open>Python's truth value of a nullable integer attribute: null and 0 are false.\<close>

fun truthy :: "int option \<Rightarrow> bool" where
  "truthy None = False"
| "truthy (Some v) = (v \<noteq> 0)"

text \<open>
  \<^verbatim>\<open>if station.lat and station.lon\<close>: the test that decides
  \<^verbatim>\<open>existing_station\<close>.
\<close>

definition existing_station :: "'a station_scheme \<Rightarrow> bool" where
  "existing_station station = (truthy (lat station) \<and> truthy (lon station))"

text \<open>\<^verbatim>\<open>min(vals)\<close> and \<^verbatim>\<open>max(vals)\<close> of a list that is not empty.\<close>

fun reduce :: "(int \<Rightarrow> int \<Rightarrow> int) \<Rightarrow> int list \<Rightarrow> int" where
  "reduce function (v # vals) = fold function vals v"

text \<open>
  The local function \<^verbatim>\<open>extreme(vals, attr, function)\<close>; \<open>old\<close> is
  \<^verbatim>\<open>getattr(station, attr, None)\<close>.
\<close>

definition extreme :: "int list \<Rightarrow> int option \<Rightarrow> (int \<Rightarrow> int \<Rightarrow> int) \<Rightarrow> int" where
  "extreme vals old function =
     (let new = reduce function vals
      in case old of Some v \<Rightarrow> function new v | None \<Rightarrow> new)"

text \<open>
  The lists \<^verbatim>\<open>latitudes\<close> and \<^verbatim>\<open>longitudes\<close> after the first
  \<^verbatim>\<open>if\<close>: the station's own position is appended for an existing station only.
\<close>

definition latitudes :: "'a station_scheme \<Rightarrow> (int \<times> int) list \<Rightarrow> int list" where
  "latitudes station measures' =
     (case lat station of
        Some v \<Rightarrow> if existing_station station then map fst measures' @ [v] else map fst measures'
      | None \<Rightarrow> map fst measures')"

definition longitudes :: "'a station_scheme \<Rightarrow> (int \<times> int) list \<Rightarrow> int list" where
  "longitudes station measures' =
     (case lon station of
        Some v \<Rightarrow> if existing_station station then map snd measures' @ [v] else map snd measures'
      | None \<Rightarrow> map snd measures')"

text \<open>
  \<^verbatim>\<open>box_dist\<close>: the distance between the opposite corners of the box around
  the measures, the existing estimate and the stored extremes.
\<close>

definition box_dist :: "'d deps_scheme \<Rightarrow> 'a station_scheme \<Rightarrow> (int \<times> int) list \<Rightarrow> real" where
  "box_dist d station measures' =
     distance d
       (to_degrees d (extreme (latitudes station measures') (min_lat station) min))
       (to_degrees d (extreme (longitudes station measures') (min_lon station) min))
       (to_degrees d (extreme (latitudes station measures') (max_lat station) max))
       (to_degrees d (extreme (longitudes station measures') (max_lon station) max))"

text \<open>
  The tail of the function, from \<^verbatim>\<open>if not backfill\<close> on: the counter of new
  measures, the four extremes and the range. \<open>s0\<close> is the station as it was when the
  extremes were computed.
\<close>

definition store_extremes ::
  "'d deps_scheme \<Rightarrow> 'a station_scheme \<Rightarrow> (int \<times> int) list \<Rightarrow> bool \<Rightarrow>
   'a station_scheme \<Rightarrow> 'a station_scheme" where
  "store_extremes d s0 measures' backfill station =
     (let len = int (length measures');
          mn_lat = extreme (latitudes s0 measures') (min_lat s0) min;
          mn_lon = extreme (longitudes s0 measures') (min_lon s0) min;
          mx_lat = extreme (latitudes s0 measures') (max_lat s0) max;
          mx_lon = extreme (longitudes s0 measures') (max_lon s0) max;
          station = (if \<not> backfill
                     then station\<lparr>new_measures := new_measures station - len\<rparr>
                     else station);
          station = station\<lparr>min_lat := Some mn_lat, min_lon := Some mn_lon,
                            max_lat := Some mx_lat, max_lon := Some mx_lon\<rparr>;
          ctr = (to_degrees d (the (lat station)), to_degrees d (the (lon station)));
          points = [(to_degrees d mn_lat, to_degrees d mn_lon),
                    (to_degrees d mn_lat, to_degrees d mx_lon),
                    (to_degrees d mx_lat, to_degrees d mn_lon),
                    (to_degrees d mx_lat, to_degrees d mx_lon)]
      in station\<lparr>range' := range_to_points d ctr points * 1000\<rparr>)"

text \<open>
  \<^verbatim>\<open>calculate_new_position(station, measures, moving_stations, max_dist_km,
  backfill)\<close>. The result is the station and the caller's set of moving stations as they
  are when the function returns, or the exception it raises: a division by zero for an
  empty batch, and for an existing station whose new total is 0.
\<close>

definition calculate_new_position ::
  "'d deps_scheme \<Rightarrow> 'a station_scheme \<Rightarrow> (int \<times> int) list \<Rightarrow> 'a station_scheme set \<Rightarrow>
   real \<Rightarrow> bool \<Rightarrow> error + ('a station_scheme \<times> 'a station_scheme set)" where
  "calculate_new_position d station measures' moving_stations max_dist_km backfill =
     (let len = int (length measures')
      in if len = 0 then Inl ZeroDivisionError
         else
           let new_lat = sum_list (map fst measures') div len;
               new_lon = sum_list (map snd measures') div len
           in case (lat station, lon station) of
                (Some s_lat, Some s_lon) \<Rightarrow>
                  if s_lat \<noteq> 0 \<and> s_lon \<noteq> 0 then
                    if box_dist d station measures' > max_dist_km
                    then Inr (station, insert station moving_stations)
                    else
                      let new_total = (if backfill then total_measures station + len
                                       else total_measures station);
                          old_length = (if backfill then total_measures station
                                        else new_total - len)
                      in if new_total = 0 then Inl ZeroDivisionError
                         else
                           Inr (store_extremes d station measures' backfill
                                  (station\<lparr>total_measures := new_total,
                                     lat := Some ((s_lat * old_length + new_lat * len) div new_total),
                                     lon := Some ((s_lon * old_length + new_lon * len) div new_total)\<rparr>),
                                moving_stations)
                  else
                    Inr (store_extremes d station measures' backfill
                           (station\<lparr>lat := Some new_lat, lon := Some new_lon\<rparr>),
                         moving_stations)
              | _ \<Rightarrow>
                  Inr (store_extremes d station measures' backfill
                         (station\<lparr>lat := Some new_lat, lon := Some new_lon\<rparr>),
                       moving_stations))"

section \<open>The virtual LAC row\<close>

text \<open>
  The cell table is the list of its rows. The unique key of a cell row is
  \<^verbatim>\<open>(radio, mcc, mnc, lac, cid)\<close>; a row whose \<^verbatim>\<open>cid\<close> is
  \<^verbatim>\<open>CELLID_LAC\<close> is the virtual row of its location area.
\<close>

definition in_lac :: "int \<Rightarrow> int \<Rightarrow> int \<Rightarrow> int \<Rightarrow> cell \<Rightarrow> bool" where
  "in_lac radio' mcc' mnc' lac' c =
     (radio c = radio' \<and> mcc c = mcc' \<and> mnc c = mnc' \<and> lac c = lac')"

text \<open>The next value of the auto-increment primary key.\<close>

definition next_id :: "cell list \<Rightarrow> nat" where
  "next_id cells = Suc (fold max (map id' cells) 0)"

text \<open>
  \<^verbatim>\<open>update_enclosing_lac(session, cell)\<close>: an insert of the virtual row of the
  cell's area with \<^verbatim>\<open>new_measures=1, total_measures=0\<close> and the cell's position and
  range, which on a duplicate key becomes \<^verbatim>\<open>new_measures = new_measures + 1\<close> on
  the row that is there. \<open>now\<close> is \<^verbatim>\<open>datetime.utcnow()\<close>.
\<close>

definition update_enclosing_lac :: "'d deps_scheme \<Rightarrow> int \<Rightarrow> cell list \<Rightarrow> cell \<Rightarrow> cell list" where
  "update_enclosing_lac d now cells c =
     (if \<exists>r \<in> set cells. in_lac (radio c) (mcc c) (mnc c) (lac c) r \<and> cid r = CELLID_LAC d
      then map (\<lambda>r. if in_lac (radio c) (mcc c) (mnc c) (lac c) r \<and> cid r = CELLID_LAC d
                      then r\<lparr>new_measures := new_measures r + 1\<rparr> else r) cells
      else cells @
        [\<lparr>lat = lat c, lon = lon c,
          min_lat = None, min_lon = None, max_lat = None, max_lon = None,
          range' = range' c, new_measures = 1, total_measures = 0,
          id' = next_id cells, radio = radio c, mcc = mcc c, mnc = mnc c, lac = lac c,
          cid = CELLID_LAC d, created = Some now\<rparr>])"

text \<open>
  \<^verbatim>\<open>min\<close> and \<^verbatim>\<open>max\<close> over a column that may hold nulls, for a list that
  is not empty. Python 2 orders \<^verbatim>\<open>None\<close> below every number: the minimum is null
  as soon as one value is, the maximum is null only when all are.
\<close>

definition py_min :: "int option list \<Rightarrow> int option" where
  "py_min vals = (if None \<in> set vals then None else Some (reduce min (map the vals)))"

definition py_max :: "int option list \<Rightarrow> int option" where
  "py_max vals =
     (case [v. Some v \<leftarrow> vals] of [] \<Rightarrow> None | v # vs \<Rightarrow> Some (reduce max (v # vs)))"

text \<open>\<^verbatim>\<open>to_degrees\<close> of a column value: arithmetic on a null raises.\<close>

fun to_degrees_col :: "'d deps_scheme \<Rightarrow> int option \<Rightarrow> error + real" where
  "to_degrees_col d None = Inl TypeError"
| "to_degrees_col d (Some v) = Inr (to_degrees d v)"

text \<open>\<^verbatim>\<open>int(round(x))\<close>: Python 2 rounds a half away from zero.\<close>

definition py_round :: "real \<Rightarrow> int" where
  "py_round x = (if 0 \<le> x then \<lfloor>x + 1 / 2\<rfloor> else \<lceil>x - 1 / 2\<rceil>)"

text \<open>The first row of a list that satisfies \<open>P\<close>, changed by \<open>f\<close>.\<close>

fun update_first :: "('a \<Rightarrow> bool) \<Rightarrow> ('a \<Rightarrow> 'a) \<Rightarrow> 'a list \<Rightarrow> 'a list" where
  "update_first P f [] = []"
| "update_first P f (x # xs) = (if P x then f x # xs else x # update_first P f xs)"

text \<open>
  \<^verbatim>\<open>update_lac(radio, mcc, mnc, lac)\<close>: the table after the commit, or the
  exception. The siblings are the rows of the area that are not the virtual row. When
  \<^verbatim>\<open>q.first()\<close> finds no virtual row, the function builds a \<^verbatim>\<open>Cell\<close> object
  and binds it to the local name \<^verbatim>\<open>lac\<close>; the object is never added to the
  session, so the commit writes nothing and the table is as before.
\<close>

definition update_lac ::
  "'d deps_scheme \<Rightarrow> cell list \<Rightarrow> int \<Rightarrow> int \<Rightarrow> int \<Rightarrow> int \<Rightarrow> error + cell list" where
  "update_lac d table radio' mcc' mnc' lac' =
     (let cells = filter (\<lambda>c. in_lac radio' mcc' mnc' lac' c \<and> cid c \<noteq> CELLID_LAC d) table
      in if \<exists>c \<in> set cells. lat c = None \<or> lon c = None then Inl TypeError
         else if cells = [] then Inl ValueError
         else
           let points = map (\<lambda>c. (to_degrees d (the (lat c)), to_degrees d (the (lon c)))) cells
           in case (to_degrees_col d (py_min (map min_lat cells)),
                    to_degrees_col d (py_min (map min_lon cells)),
                    to_degrees_col d (py_max (map max_lat cells)),
                    to_degrees_col d (py_max (map max_lon cells))) of
                (Inr mn_lat, Inr mn_lon, Inr mx_lat, Inr mx_lon) \<Rightarrow>
                  let bbox_points = [(mn_lat, mn_lon), (mn_lat, mx_lon),
                                     (mx_lat, mn_lon), (mx_lat, mx_lon)];
                      ctr = centroid d points;
                      rng = range_to_points d ctr bbox_points;
                      ctr_lat = from_degrees d (fst ctr);
                      ctr_lon = from_degrees d (snd ctr);
                      rng = py_round (rng * 1000)
                  in if \<exists>c \<in> set table. in_lac radio' mcc' mnc' lac' c \<and> cid c = CELLID_LAC d
                     then Inr (update_first
                            (\<lambda>c. in_lac radio' mcc' mnc' lac' c \<and> cid c = CELLID_LAC d)
                            (\<lambda>c. c\<lparr>new_measures := 0, lat := Some ctr_lat, lon := Some ctr_lon,
                                   range' := of_int rng\<rparr>)
                            table)
                     else Inr table
              | _ \<Rightarrow> Inl TypeError)"

section \<open>Measures and archive blocks\<close>

text \<open>
  A measure row (\<^verbatim>\<open>CellMeasure\<close> or \<^verbatim>\<open>WifiMeasure\<close>). Its columns
  carry the prefix \<open>m_\<close>, the station row having columns of the same names;
  \<open>m_key\<close> stands for the columns that name the station (the five columns of the cell
  key, or the Wi-Fi key). A date is a number of microseconds.
\<close>

record 'k measure =
  m_id :: int
  m_time :: int
  m_created :: int
  m_lat :: int
  m_lon :: int
  m_key :: 'k

text \<open>A \<^verbatim>\<open>MeasureBlock\<close> row.\<close>

record measure_block =
  measure_type :: int
  start_id :: int
  end_id :: int
  s3_key :: "string option"
  archive_sha :: "string option"
  archive_date :: "int option"

section \<open>schedule\_measure\_archival\<close>

text \<open>
  The \<^verbatim>\<open>while\<close> loop of the planner, entered with the state
  \<^verbatim>\<open>(min_id, this_max_id, blocks)\<close>. It need not stop (a batch size of 0 repeats
  the same empty block for ever), so the result is an option and \<open>None\<close> is a loop that
  does not return.
\<close>

partial_function (option) carve ::
  "int \<Rightarrow> int \<Rightarrow> int \<Rightarrow> int \<Rightarrow> (int \<times> int) list \<Rightarrow> (int \<times> int) list option" where
  "carve batch_size max_id min_id this_max_id blocks =
     (if this_max_id - min_id + 1 \<ge> batch_size
      then if min (batch_size + this_max_id) max_id > max_id
           then Some (blocks @ [(min_id, this_max_id)])
           else carve batch_size max_id (this_max_id + 1)
                  (min (batch_size + this_max_id) max_id) (blocks @ [(min_id, this_max_id)])
      else Some blocks)"

text \<open>The row that \<^verbatim>\<open>MeasureBlock(start_id, end_id, measure_type)\<close> adds.\<close>

definition new_block :: "int \<Rightarrow> int \<times> int \<Rightarrow> measure_block" where
  "new_block measure_type' b =
     \<lparr>measure_type = measure_type', start_id = fst b, end_id = snd b,
      s3_key = None, archive_sha = None, archive_date = None\<rparr>"

text \<open>
  \<^verbatim>\<open>schedule_measure_archival(measure_type, measure_cls)\<close> with the configured
  \<^verbatim>\<open>archive_batch_size\<close>, on the block table and the measure table: the list it
  returns and the block table after the commit. \<^verbatim>\<open>record[0]\<close> on an empty measure
  table is a TypeError.
\<close>

definition schedule_measure_archival ::
  "int \<Rightarrow> measure_block list \<Rightarrow> 'k measure list \<Rightarrow> int \<Rightarrow>
   (error + ((int \<times> int) list \<times> measure_block list)) option" where
  "schedule_measure_archival batch_size block_table measure_table measure_type' =
     (let ends = map end_id (filter (\<lambda>b. measure_type b = measure_type') block_table);
          ids = map m_id measure_table
      in if ids = [] then Some (Inl TypeError)
         else
           let min_id = (if ends \<noteq> [] then reduce max ends + 1 else reduce min ids);
               max_id = reduce max ids
           in if max_id - min_id + 1 < batch_size then Some (Inr ([], block_table))
              else
                case carve batch_size max_id min_id (min_id + batch_size - 1) [] of
                  None \<Rightarrow> None
                | Some blocks \<Rightarrow>
                    Some (Inr (blocks, block_table @ map (new_block measure_type') blocks)))"

section \<open>Example data\<close>

text \<open>
  A planar stand-in for the geodesic helpers, used where a theorem is evaluated on
  concrete rows: one degree is 111 km along both axes, a distance is the sum of the two
  coordinate differences, the centroid is the mean and the range is the largest distance
  from the centre.
\<close>

definition flat_deps :: deps where
  "flat_deps =
     \<lparr>CELLID_LAC = - 2,
      to_degrees = (\<lambda>v. real_of_int v / 10000000),
      from_degrees = (\<lambda>x. \<lfloor>x * 10000000\<rfloor>),
      distance = (\<lambda>lat1 lon1 lat2 lon2. 111 * (\<bar>lat1 - lat2\<bar> + \<bar>lon1 - lon2\<bar>)),
      centroid = (\<lambda>ps. (sum_list (map fst ps) / real (length ps),
                          sum_list (map snd ps) / real (length ps))),
      range_to_points = (\<lambda>c ps. fold max
          (map (\<lambda>p. 111 * (\<bar>fst c - fst p\<bar> + \<bar>snd c - snd p\<bar>)) ps) 0)\<rparr>"

text \<open>A cell at 50 N, 10 E with 90 measures in total, 10 of them new.\<close>

definition cell0 :: cell where
  "cell0 = \<lparr>lat = Some 500000000, lon = Some 100000000,
            min_lat = Some 500000000, min_lon = Some 100000000,
            max_lat = Some 500000000, max_lon = Some 100000000,
            range' = 0, new_measures = 10, total_measures = 90,
            id' = 1, radio = 0, mcc = 1, mnc = 2, lac = 3, cid = 4, created = None\<rparr>"

text \<open>Ten measures at 50.001 N, 10 E, and ten at 60 N, 20 E.\<close>

definition batch10 :: "(int \<times> int) list" where
  "batch10 = [(500010000, 100000000), (500010000, 100000000), (500010000, 100000000),
     (500010000, 100000000), (500010000, 100000000), (500010000, 100000000),
     (500010000, 100000000), (500010000, 100000000), (500010000, 100000000),
     (500010000, 100000000)]"

definition far10 :: "(int \<times> int) list" where
  "far10 = [(600000000, 200000000), (600000000, 200000000), (600000000, 200000000),
     (600000000, 200000000), (600000000, 200000000), (600000000, 200000000),
     (600000000, 200000000), (600000000, 200000000), (600000000, 200000000),
     (600000000, 200000000)]"

text \<open>A Wi-Fi access point on the equator, at 0 N, 10 E.\<close>

definition wifi0 :: wifi where
  "wifi0 = \<lparr>lat = Some 0, lon = Some 100000000,
            min_lat = None, min_lon = None, max_lat = None, max_lon = None,
            range' = 0, new_measures = 1, total_measures = 1, key = ''0016ca000001''\<rparr>"

text \<open>A measure table with the ids 1 to 2500, all of one access point.\<close>

definition measures2500 :: "string measure list" where
  "measures2500 =
     map (\<lambda>i. \<lparr>m_id = i, m_time = 0, m_created = 0, m_lat = 0, m_lon = 0,
                m_key = ''0016ca000001''\<rparr>) [1..2500]"

section \<open>Properties of calculate\_new\_position\<close>

lemma flat_deps_sel [simp]:
  "CELLID_LAC flat_deps = - 2"
  "to_degrees flat_deps = (\<lambda>v. real_of_int v / 10000000)"
  "from_degrees flat_deps = (\<lambda>x. \<lfloor>x * 10000000\<rfloor>)"
  "distance flat_deps = (\<lambda>lat1 lon1 lat2 lon2. 111 * (\<bar>lat1 - lat2\<bar> + \<bar>lon1 - lon2\<bar>))"
  "centroid flat_deps = (\<lambda>ps. (sum_list (map fst ps) / real (length ps),
                          sum_list (map snd ps) / real (length ps)))"
  "range_to_points flat_deps = (\<lambda>c ps. fold max
          (map (\<lambda>p. 111 * (\<bar>fst c - fst p\<bar> + \<bar>snd c - snd p\<bar>)) ps) 0)"
  by (simp_all add: flat_deps_def)

lemma box_dist_cell0_batch10: "box_dist flat_deps cell0 batch10 = 111 * (10000 / 10000000)"
  by (simp add: box_dist_def extreme_def latitudes_def longitudes_def existing_station_def
      cell0_def batch10_def)

lemma box_dist_cell0_far10: "box_dist flat_deps cell0 far10 = 2220"
  by (simp add: box_dist_def extreme_def latitudes_def longitudes_def existing_station_def
      cell0_def far10_def)

text \<open>
  C3. A station with an estimate (both coordinates set and not 0), a batch of
  \<open>n > 0\<close> measures whose extended box stays within the cap, incremental mode:
  the call returns, the new latitude is
  \<open>(lat * (total_measures - n) + (sum of the batch latitudes div n) * n) div total_measures\<close>,
  the longitude likewise, \<open>new_measures\<close> goes down by \<open>n\<close> and
  \<open>total_measures\<close> stays. The divisor \<open>total_measures\<close> is not 0 (Python raises
  ZeroDivisionError there).
\<close>

theorem incremental_weighted_mean:
  assumes "lat station = Some s_lat" and "lon station = Some s_lon"
    and "s_lat \<noteq> 0" and "s_lon \<noteq> 0"
    and "measures' \<noteq> []"
    and "\<not> box_dist d station measures' > max_dist_km"
    and "total_measures station \<noteq> 0"
  shows "\<exists>station'.
      calculate_new_position d station measures' moving_stations max_dist_km False
        = Inr (station', moving_stations)
    \<and> lat station' = Some ((s_lat * (total_measures station - int (length measures'))
          + (sum_list (map fst measures') div int (length measures')) * int (length measures'))
          div total_measures station)
    \<and> lon station' = Some ((s_lon * (total_measures station - int (length measures'))
          + (sum_list (map snd measures') div int (length measures')) * int (length measures'))
          div total_measures station)
    \<and> new_measures station' = new_measures station - int (length measures')
    \<and> total_measures station' = total_measures station"
  using assms
  by (simp add: calculate_new_position_def store_extremes_def Let_def)

theorem incremental_weighted_mean_witness:
  "\<exists>station'.
      calculate_new_position flat_deps cell0 batch10 {} CELL_MAX_DIST_KM False = Inr (station', {})
    \<and> lat station' = Some 500001111 \<and> lon station' = Some 100000000
    \<and> new_measures station' = 0 \<and> total_measures station' = 90"
  using incremental_weighted_mean [where station = cell0 and s_lat = 500000000
      and s_lon = 100000000 and measures' = batch10 and d = flat_deps
      and max_dist_km = CELL_MAX_DIST_KM and moving_stations = "{}"]
  by (simp add: box_dist_cell0_batch10 CELL_MAX_DIST_KM_def) (simp add: cell0_def batch10_def)

text \<open>
  C4, as the code has it. The test \<^verbatim>\<open>station.lat and station.lon\<close> takes a
  station as one with an estimate exactly when both coordinates are set and both are
  different from 0; a station with a null or zero latitude, or a null or zero longitude,
  has none. Without an estimate the call returns with the position set to the batch mean,
  the moving set as it was, and extremes over the batch and the stored extremes only.
  With an estimate the station's own position is one of the points of the box, the
  station joins the moving set when the box is over the cap, and otherwise (the new total
  not being 0) the position becomes the weighted mean.
\<close>

theorem absent_test:
  assumes "measures' \<noteq> []"
  shows "(existing_station station \<longleftrightarrow>
            (\<exists>s_lat s_lon. lat station = Some s_lat \<and> s_lat \<noteq> 0
               \<and> lon station = Some s_lon \<and> s_lon \<noteq> 0))
    \<and> (\<not> existing_station station \<longrightarrow>
          (\<exists>station'.
             calculate_new_position d station measures' moving_stations max_dist_km backfill
               = Inr (station', moving_stations)
           \<and> lat station' = Some (sum_list (map fst measures') div int (length measures'))
           \<and> lon station' = Some (sum_list (map snd measures') div int (length measures'))
           \<and> min_lat station' = Some (extreme (map fst measures') (min_lat station) min)
           \<and> min_lon station' = Some (extreme (map snd measures') (min_lon station) min)
           \<and> max_lat station' = Some (extreme (map fst measures') (max_lat station) max)
           \<and> max_lon station' = Some (extreme (map snd measures') (max_lon station) max)))
    \<and> (\<forall>s_lat s_lon. existing_station station \<and> lat station = Some s_lat
            \<and> lon station = Some s_lon \<longrightarrow>
          box_dist d station measures' =
            distance d
              (to_degrees d (extreme (map fst measures' @ [s_lat]) (min_lat station) min))
              (to_degrees d (extreme (map snd measures' @ [s_lon]) (min_lon station) min))
              (to_degrees d (extreme (map fst measures' @ [s_lat]) (max_lat station) max))
              (to_degrees d (extreme (map snd measures' @ [s_lon]) (max_lon station) max))
        \<and> (box_dist d station measures' > max_dist_km \<longrightarrow>
             calculate_new_position d station measures' moving_stations max_dist_km backfill
               = Inr (station, insert station moving_stations))
        \<and> (\<not> box_dist d station measures' > max_dist_km
             \<and> (if backfill then total_measures station + int (length measures')
                 else total_measures station) \<noteq> 0 \<longrightarrow>
             (\<exists>station'.
                calculate_new_position d station measures' moving_stations max_dist_km backfill
                  = Inr (station', moving_stations)
              \<and> lat station' = Some ((s_lat * (if backfill then total_measures station
                     else total_measures station - int (length measures'))
                   + (sum_list (map fst measures') div int (length measures'))
                     * int (length measures'))
                   div (if backfill then total_measures station + int (length measures')
                        else total_measures station))
              \<and> min_lat station' = Some (extreme (map fst measures' @ [s_lat]) (min_lat station) min)
              \<and> min_lon station' = Some (extreme (map snd measures' @ [s_lon]) (min_lon station) min)
              \<and> max_lat station' = Some (extreme (map fst measures' @ [s_lat]) (max_lat station) max)
              \<and> max_lon station' = Some (extreme (map snd measures' @ [s_lon]) (max_lon station) max))))"
proof (intro conjI)
  show "existing_station station \<longleftrightarrow>
            (\<exists>s_lat s_lon. lat station = Some s_lat \<and> s_lat \<noteq> 0
               \<and> lon station = Some s_lon \<and> s_lon \<noteq> 0)"
    by (cases "lat station"; cases "lon station") (simp_all add: existing_station_def)
next
  show "\<not> existing_station station \<longrightarrow>
          (\<exists>station'.
             calculate_new_position d station measures' moving_stations max_dist_km backfill
               = Inr (station', moving_stations)
           \<and> lat station' = Some (sum_list (map fst measures') div int (length measures'))
           \<and> lon station' = Some (sum_list (map snd measures') div int (length measures'))
           \<and> min_lat station' = Some (extreme (map fst measures') (min_lat station) min)
           \<and> min_lon station' = Some (extreme (map snd measures') (min_lon station) min)
           \<and> max_lat station' = Some (extreme (map fst measures') (max_lat station) max)
           \<and> max_lon station' = Some (extreme (map snd measures') (max_lon station) max))"
    using assms
    by (cases "lat station"; cases "lon station")
       (simp_all add: existing_station_def calculate_new_position_def store_extremes_def
          Let_def latitudes_def longitudes_def)
next
  show "\<forall>s_lat s_lon. existing_station station \<and> lat station = Some s_lat
            \<and> lon station = Some s_lon \<longrightarrow>
          box_dist d station measures' =
            distance d
              (to_degrees d (extreme (map fst measures' @ [s_lat]) (min_lat station) min))
              (to_degrees d (extreme (map snd measures' @ [s_lon]) (min_lon station) min))
              (to_degrees d (extreme (map fst measures' @ [s_lat]) (max_lat station) max))
              (to_degrees d (extreme (map snd measures' @ [s_lon]) (max_lon station) max))
        \<and> (box_dist d station measures' > max_dist_km \<longrightarrow>
             calculate_new_position d station measures' moving_stations max_dist_km backfill
               = Inr (station, insert station moving_stations))
        \<and> (\<not> box_dist d station measures' > max_dist_km
             \<and> (if backfill then total_measures station + int (length measures')
                 else total_measures station) \<noteq> 0 \<longrightarrow>
             (\<exists>station'.
                calculate_new_position d station measures' moving_stations max_dist_km backfill
                  = Inr (station', moving_stations)
              \<and> lat station' = Some ((s_lat * (if backfill then total_measures station
                     else total_measures station - int (length measures'))
                   + (sum_list (map fst measures') div int (length measures'))
                     * int (length measures'))
                   div (if backfill then total_measures station + int (length measures')
                        else total_measures station))
              \<and> min_lat station' = Some (extreme (map fst measures' @ [s_lat]) (min_lat station) min)
              \<and> min_lon station' = Some (extreme (map snd measures' @ [s_lon]) (min_lon station) min)
              \<and> max_lat station' = Some (extreme (map fst measures' @ [s_lat]) (max_lat station) max)
              \<and> max_lon station' = Some (extreme (map snd measures' @ [s_lon]) (max_lon station) max)))"
  proof (intro allI impI, elim conjE)
    fix s_lat s_lon
    assume ex: "existing_station station"
      and la: "lat station = Some s_lat" and lo: "lon station = Some s_lon"
    from ex la lo have nz: "s_lat \<noteq> 0" "s_lon \<noteq> 0"
      by (simp_all add: existing_station_def)
    have box: "box_dist d station measures' =
            distance d
              (to_degrees d (extreme (map fst measures' @ [s_lat]) (min_lat station) min))
              (to_degrees d (extreme (map snd measures' @ [s_lon]) (min_lon station) min))
              (to_degrees d (extreme (map fst measures' @ [s_lat]) (max_lat station) max))
              (to_degrees d (extreme (map snd measures' @ [s_lon]) (max_lon station) max))"
      using ex la lo by (simp add: box_dist_def latitudes_def longitudes_def)
    have mv: "box_dist d station measures' > max_dist_km \<longrightarrow>
             calculate_new_position d station measures' moving_stations max_dist_km backfill
               = Inr (station, insert station moving_stations)"
      using assms la lo nz by (simp add: calculate_new_position_def)
    have upd: "\<not> box_dist d station measures' > max_dist_km
             \<and> (if backfill then total_measures station + int (length measures')
                 else total_measures station) \<noteq> 0 \<longrightarrow>
             (\<exists>station'.
                calculate_new_position d station measures' moving_stations max_dist_km backfill
                  = Inr (station', moving_stations)
              \<and> lat station' = Some ((s_lat * (if backfill then total_measures station
                     else total_measures station - int (length measures'))
                   + (sum_list (map fst measures') div int (length measures'))
                     * int (length measures'))
                   div (if backfill then total_measures station + int (length measures')
                        else total_measures station))
              \<and> min_lat station' = Some (extreme (map fst measures' @ [s_lat]) (min_lat station) min)
              \<and> min_lon station' = Some (extreme (map snd measures' @ [s_lon]) (min_lon station) min)
              \<and> max_lat station' = Some (extreme (map fst measures' @ [s_lat]) (max_lat station) max)
              \<and> max_lon station' = Some (extreme (map snd measures' @ [s_lon]) (max_lon station) max))"
      using assms ex la lo nz
      by (cases backfill)
         (simp_all add: calculate_new_position_def store_extremes_def Let_def
            latitudes_def longitudes_def)
    from box mv upd
    show "box_dist d station measures' =
            distance d
              (to_degrees d (extreme (map fst measures' @ [s_lat]) (min_lat station) min))
              (to_degrees d (extreme (map snd measures' @ [s_lon]) (min_lon station) min))
              (to_degrees d (extreme (map fst measures' @ [s_lat]) (max_lat station) max))
              (to_degrees d (extreme (map snd measures' @ [s_lon]) (max_lon station) max))
        \<and> (box_dist d station measures' > max_dist_km \<longrightarrow>
             calculate_new_position d station measures' moving_stations max_dist_km backfill
               = Inr (station, insert station moving_stations))
        \<and> (\<not> box_dist d station measures' > max_dist_km
             \<and> (if backfill then total_measures station + int (length measures')
                 else total_measures station) \<noteq> 0 \<longrightarrow>
             (\<exists>station'.
                calculate_new_position d station measures' moving_stations max_dist_km backfill
                  = Inr (station', moving_stations)
              \<and> lat station' = Some ((s_lat * (if backfill then total_measures station
                     else total_measures station - int (length measures'))
                   + (sum_list (map fst measures') div int (length measures'))
                     * int (length measures'))
                   div (if backfill then total_measures station + int (length measures')
                        else total_measures station))
              \<and> min_lat station' = Some (extreme (map fst measures' @ [s_lat]) (min_lat station) min)
              \<and> min_lon station' = Some (extreme (map snd measures' @ [s_lon]) (min_lon station) min)
              \<and> max_lat station' = Some (extreme (map fst measures' @ [s_lat]) (max_lat station) max)
              \<and> max_lon station' = Some (extreme (map snd measures' @ [s_lon]) (max_lon station) max)))"
      by (intro conjI)
  qed
qed

theorem absent_test_witness:
  "\<not> existing_station wifi0 \<and> existing_station cell0
   \<and> (\<exists>station'.
        calculate_new_position flat_deps wifi0 [(100000000, 500000000)] {} WIFI_MAX_DIST_KM False
          = Inr (station', {})
        \<and> lat station' = Some 100000000 \<and> lon station' = Some 500000000
        \<and> min_lon station' = Some 500000000 \<and> max_lon station' = Some 500000000)
   \<and> calculate_new_position flat_deps cell0 far10 {} CELL_MAX_DIST_KM False
        = Inr (cell0, {cell0})"
proof -
  have a: "\<not> existing_station wifi0"
    by (simp add: existing_station_def wifi0_def)
  have b: "existing_station cell0 \<and> lat cell0 = Some 500000000 \<and> lon cell0 = Some 100000000"
    by (simp add: existing_station_def cell0_def)
  have m: "[(100000000, 500000000)] \<noteq> ([] :: (int \<times> int) list)"
    by simp
  have f: "far10 \<noteq> []"
    by (simp add: far10_def)
  have over: "box_dist flat_deps cell0 far10 > CELL_MAX_DIST_KM"
    by (simp add: box_dist_cell0_far10 CELL_MAX_DIST_KM_def)
  note w = absent_test [where station = wifi0 and d = flat_deps
      and max_dist_km = WIFI_MAX_DIST_KM and moving_stations = "{}" and backfill = False, OF m]
  note c = absent_test [where station = cell0 and d = flat_deps
      and max_dist_km = CELL_MAX_DIST_KM and moving_stations = "{}" and backfill = False, OF f]
  from w [THEN conjunct2, THEN conjunct1, THEN mp, OF a] have 1: "\<exists>station'.
        calculate_new_position flat_deps wifi0 [(100000000, 500000000)] {} WIFI_MAX_DIST_KM False
          = Inr (station', {})
        \<and> lat station' = Some 100000000 \<and> lon station' = Some 500000000
        \<and> min_lon station' = Some 500000000 \<and> max_lon station' = Some 500000000"
    by (simp add: wifi0_def extreme_def) blast
  from c have "existing_station cell0 \<and> lat cell0 = Some 500000000
        \<and> lon cell0 = Some 100000000 \<longrightarrow>
      (box_dist flat_deps cell0 far10 > CELL_MAX_DIST_KM \<longrightarrow>
       calculate_new_position flat_deps cell0 far10 {} CELL_MAX_DIST_KM False
         = Inr (cell0, {cell0}))"
    by blast
  with b over have 2: "calculate_new_position flat_deps cell0 far10 {} CELL_MAX_DIST_KM False
        = Inr (cell0, {cell0})"
    by blast
  from a b 1 2 show ?thesis
    by blast
qed

text \<open>
  The claim C4 as written takes only the station with both coordinates 0 as one without
  an estimate. The access point at 0 N, 10 E is not such a station, yet one measure at
  10 N, 50 E replaces its position by the batch mean, its longitude 10 E is not a point
  of the box (the stored extremes are 50 E on both sides) and, although the box with it
  would span 40 degrees, the moving set stays empty.
\<close>

theorem absent_test_counterexample:
  "calculate_new_position flat_deps wifi0 [(100000000, 500000000)] {} WIFI_MAX_DIST_KM False
     = Inr (\<lparr>lat = Some 100000000, lon = Some 500000000,
            min_lat = Some 100000000, min_lon = Some 500000000,
            max_lat = Some 100000000, max_lon = Some 500000000,
            range' = 0, new_measures = 0, total_measures = 1, key = ''0016ca000001''\<rparr>, {})"
  by (simp add: calculate_new_position_def store_extremes_def Let_def wifi0_def extreme_def
      latitudes_def longitudes_def existing_station_def)

text \<open>
  C5. A station with an estimate whose extended box is over the cap: the call returns
  with the station added to the caller's moving set and the station itself, every field
  of it, as it was. The caps are 150 km for cells and 5 km for Wi-Fi.
\<close>

theorem moving_station_unchanged:
  assumes "lat station = Some s_lat" and "lon station = Some s_lon"
    and "s_lat \<noteq> 0" and "s_lon \<noteq> 0"
    and "measures' \<noteq> []"
    and "box_dist d station measures' > max_dist_km"
  shows "calculate_new_position d station measures' moving_stations max_dist_km backfill
           = Inr (station, insert station moving_stations)
         \<and> CELL_MAX_DIST_KM = 150 \<and> WIFI_MAX_DIST_KM = 5"
  using assms
  by (simp add: calculate_new_position_def CELL_MAX_DIST_KM_def WIFI_MAX_DIST_KM_def)

theorem moving_station_unchanged_witness:
  "calculate_new_position flat_deps cell0 far10 {} CELL_MAX_DIST_KM False = Inr (cell0, {cell0})"
  using moving_station_unchanged [where station = cell0 and s_lat = 500000000
      and s_lon = 100000000 and measures' = far10 and d = flat_deps
      and max_dist_km = CELL_MAX_DIST_KM and moving_stations = "{}" and backfill = False]
  by (simp add: box_dist_cell0_far10 CELL_MAX_DIST_KM_def) (simp add: cell0_def far10_def)

section \<open>The counters of a station row\<close>

lemma calc_keeps_counters:
  assumes ne: "measures' \<noteq> []"
    and inv: "0 \<le> new_measures station" "new_measures station \<le> total_measures station"
    and lim: "\<not> backfill \<longrightarrow> int (length measures') \<le> new_measures station"
  shows "\<exists>station' moving'.
      calculate_new_position d station measures' moving_stations max_dist_km backfill
        = Inr (station', moving')
      \<and> 0 \<le> new_measures station' \<and> new_measures station' \<le> total_measures station'"
proof -
  from ne have len: "0 < int (length measures')" by simp
  show ?thesis
  proof (cases "lat station")
    case None
    with ne inv lim len show ?thesis
      by (cases backfill) (simp_all add: calculate_new_position_def store_extremes_def Let_def)
  next
    case la: (Some s_lat)
    show ?thesis
    proof (cases "lon station")
      case None
      with la ne inv lim len show ?thesis
        by (cases backfill) (simp_all add: calculate_new_position_def store_extremes_def Let_def)
    next
      case lo: (Some s_lon)
      show ?thesis
      proof (cases "s_lat \<noteq> 0 \<and> s_lon \<noteq> 0")
        case False
        with la lo ne inv lim len show ?thesis
          by (cases backfill)
             (auto simp add: calculate_new_position_def store_extremes_def Let_def)
      next
        case nz: True
        show ?thesis
        proof (cases "box_dist d station measures' > max_dist_km")
          case True
          with la lo nz ne inv show ?thesis
            by (simp add: calculate_new_position_def)
        next
          case False
          have t1: "total_measures station + int (length measures') \<noteq> 0"
            using len inv by linarith
          have t2: "total_measures station \<noteq> 0" if "\<not> backfill"
          proof -
            from that lim have "int (length measures') \<le> new_measures station"
              by simp
            with len inv show ?thesis
              by linarith
          qed
          from False la lo nz ne inv lim t1 t2 show ?thesis
            by (cases backfill)
               (simp_all add: calculate_new_position_def store_extremes_def Let_def)
        qed
      qed
    qed
  qed
qed

lemma lac_touch_other_rows:
  "cid r \<noteq> CELLID_LAC d \<Longrightarrow>
     r \<in> set (update_enclosing_lac d now cells c) \<longleftrightarrow> r \<in> set cells"
  by (auto simp add: update_enclosing_lac_def)

lemma lac_touch_insert:
  "\<not> (\<exists>r \<in> set cells. in_lac (radio c) (mcc c) (mnc c) (lac c) r \<and> cid r = CELLID_LAC d) \<Longrightarrow>
   \<exists>r. update_enclosing_lac d now cells c = cells @ [r] \<and> cid r = CELLID_LAC d
      \<and> in_lac (radio c) (mcc c) (mnc c) (lac c) r
      \<and> new_measures r = 1 \<and> total_measures r = 0"
  by (simp add: update_enclosing_lac_def in_lac_def)

text \<open>
  C6, as the code has it. A station whose counters satisfy
  \<open>0 \<le> new_measures \<le> total_measures\<close> keeps that through
  \<^verbatim>\<open>calculate_new_position\<close>, which returns, when in incremental mode the batch
  is no longer than \<open>new_measures\<close> (the callers load at most that many rows).
  \<^verbatim>\<open>update_enclosing_lac\<close> leaves every row that is not a virtual LAC row in
  the table as it is; the virtual row it inserts has \<open>new_measures = 1\<close> and
  \<open>total_measures = 0\<close>.
\<close>

theorem counters_invariant:
  "(measures' \<noteq> [] \<and> 0 \<le> new_measures station
      \<and> new_measures station \<le> total_measures station
      \<and> (\<not> backfill \<longrightarrow> int (length measures') \<le> new_measures station) \<longrightarrow>
      (\<exists>station' moving'.
         calculate_new_position d station measures' moving_stations max_dist_km backfill
           = Inr (station', moving')
       \<and> 0 \<le> new_measures station' \<and> new_measures station' \<le> total_measures station'))
   \<and> (\<forall>r. cid r \<noteq> CELLID_LAC d \<longrightarrow>
          (r \<in> set (update_enclosing_lac d now cells c) \<longleftrightarrow> r \<in> set cells))
   \<and> (\<not> (\<exists>r \<in> set cells. in_lac (radio c) (mcc c) (mnc c) (lac c) r \<and> cid r = CELLID_LAC d) \<longrightarrow>
        (\<exists>r. update_enclosing_lac d now cells c = cells @ [r] \<and> cid r = CELLID_LAC d
           \<and> in_lac (radio c) (mcc c) (mnc c) (lac c) r
           \<and> new_measures r = 1 \<and> total_measures r = 0))"
  using calc_keeps_counters [of measures' station backfill d moving_stations max_dist_km]
    lac_touch_other_rows [of _ d now cells c] lac_touch_insert [of cells c d now]
  by blast

theorem counters_invariant_witness:
  "(\<exists>station' moving'.
      calculate_new_position flat_deps cell0 batch10 {} CELL_MAX_DIST_KM False
        = Inr (station', moving')
      \<and> 0 \<le> new_measures station' \<and> new_measures station' \<le> total_measures station')
   \<and> cell0 \<in> set (update_enclosing_lac flat_deps 0 [cell0] cell0)
   \<and> (\<exists>r. update_enclosing_lac flat_deps 0 [cell0] cell0 = [cell0, r]
         \<and> new_measures r = 1 \<and> total_measures r = 0)"
proof -
  note inv = counters_invariant [where measures' = batch10 and station = cell0
      and backfill = False and d = flat_deps and moving_stations = "{}"
      and max_dist_km = CELL_MAX_DIST_KM and now = 0
      and cells = "[cell0]" and c = cell0]
  have pre: "batch10 \<noteq> [] \<and> 0 \<le> new_measures cell0
      \<and> new_measures cell0 \<le> total_measures cell0
      \<and> (\<not> False \<longrightarrow> int (length batch10) \<le> new_measures cell0)"
    by (simp add: batch10_def cell0_def)
  have real: "cid cell0 \<noteq> CELLID_LAC flat_deps"
    by (simp add: cell0_def)
  have novirt: "\<not> (\<exists>r \<in> set [cell0].
      in_lac (radio cell0) (mcc cell0) (mnc cell0) (lac cell0) r \<and> cid r = CELLID_LAC flat_deps)"
    by (simp add: cell0_def)
  from inv pre have 1: "\<exists>station' moving'.
      calculate_new_position flat_deps cell0 batch10 {} CELL_MAX_DIST_KM False
        = Inr (station', moving')
      \<and> 0 \<le> new_measures station' \<and> new_measures station' \<le> total_measures station'"
    by blast
  from inv real have 2: "cell0 \<in> set (update_enclosing_lac flat_deps 0 [cell0] cell0)"
    by simp
  from inv novirt have "\<exists>r. update_enclosing_lac flat_deps 0 [cell0] cell0 = [cell0] @ [r]
         \<and> cid r = CELLID_LAC flat_deps
         \<and> in_lac (radio cell0) (mcc cell0) (mnc cell0) (lac cell0) r
         \<and> new_measures r = 1 \<and> total_measures r = 0"
    by blast
  then have 3: "\<exists>r. update_enclosing_lac flat_deps 0 [cell0] cell0 = [cell0, r]
         \<and> new_measures r = 1 \<and> total_measures r = 0"
    by auto
  from 1 2 3 show ?thesis
    by blast
qed

text \<open>
  The claim C6 as written has the invariant on the virtual LAC rows too. Touching the
  area of the example cell in a table without its virtual row inserts a row with
  \<open>new_measures = 1\<close> above \<open>total_measures = 0\<close>.
\<close>

theorem lac_row_counterexample:
  "update_enclosing_lac flat_deps 0 [cell0] cell0 =
     [cell0,
      \<lparr>lat = Some 500000000, lon = Some 100000000, min_lat = None,
       min_lon = None, max_lat = None, max_lon = None, range' = 0,
       new_measures = 1, total_measures = 0, id' = 2, radio = 0, mcc = 1,
       mnc = 2, lac = 3, cid = - 2, created = Some 0\<rparr>]"
  by (simp add: update_enclosing_lac_def in_lac_def cell0_def next_id_def)

section \<open>update\_lac\<close>

text \<open>
  C7 on a table that holds the example cell and no virtual row of its area: the
  function returns, and the table is as it was, with no row whose \<open>cid\<close> is
  \<open>CELLID_LAC\<close>. The branch for a missing row builds the object and never adds it to
  the session.
\<close>

theorem update_lac_insert_branch:
  "update_lac flat_deps [cell0] 0 1 2 3 = Inr [cell0]
   \<and> map cid [cell0] = [4] \<and> CELLID_LAC flat_deps = - 2"
  by (simp add: update_lac_def in_lac_def cell0_def py_min_def py_max_def)

text \<open>
  With the virtual row in the table (as \<^verbatim>\<open>update_enclosing_lac\<close> leaves it),
  the same call sets the row's position to the centroid of the sibling, its range and
  \<open>new_measures = 0\<close>.
\<close>

lemma update_lac_update_branch:
  "update_lac flat_deps (update_enclosing_lac flat_deps 0 [cell0] cell0) 0 1 2 3 =
     Inr [cell0,
      \<lparr>lat = Some 500000000, lon = Some 100000000, min_lat = None,
       min_lon = None, max_lat = None, max_lon = None, range' = 0,
       new_measures = 0, total_measures = 0, id' = 2, radio = 0, mcc = 1,
       mnc = 2, lac = 3, cid = - 2, created = Some 0\<rparr>]"
  by (simp add: update_lac_def update_enclosing_lac_def in_lac_def cell0_def next_id_def
      py_min_def py_max_def py_round_def)

end
